theory Spec2Isabelle
  imports Complex_Main "HOL-Library.Monad_Syntax"
begin

section \<open>The double-input interval type-2 fuzzy controller (DI-IT2-FLC-FM.cpp)\<close>

text \<open>
  The controller computes on C++ \<open>double\<close>s. They are modelled by \<^typ>\<open>real\<close>: every
  statement below is about the exact arithmetic of the formulas in the source, not about
  IEEE rounding. The constant \<open>M_PI\<close> of the C library is modelled by \<^term>\<open>pi\<close>, and
  \<open>abs\<close> on a \<open>double\<close> argument by the absolute value of \<^typ>\<open>real\<close> (the translation
  unit uses \<open>cout\<close> and \<open>endl\<close> unqualified, so namespace \<open>std\<close> is in scope and the
  floating-point overload is the one selected).
\<close>

subsection \<open>Scalar helpers\<close>

definition M_PI :: real where
  "M_PI = pi"

text \<open>\<open>DI_IT2_FLC_FM::denormalizeAngle\<close>: one shift of \<open>a1\<close> by a full turn towards \<open>a2\<close>.\<close>

definition denormalizeAngle :: "real \<Rightarrow> real \<Rightarrow> real" where
  "denormalizeAngle a1 a2 =
     (if \<bar>a2 - a1\<bar> > M_PI
      then (if a2 < a1 then a1 - 2 * M_PI else a1 + 2 * M_PI)
      else a1)"

text \<open>\<open>DI_IT2_FLC_FM::bound\<close>: clamp to the unit interval \<open>[-1, 1]\<close>.\<close>

definition bound :: "real \<Rightarrow> real" where
  "bound n = (if n \<le> -1 then -1 else if n \<ge> 1 then 1 else n)"

text \<open>\<open>DI_IT2_FLC_FM::phi\<close>: the blended control surface used by the loop.\<close>

definition phi :: "real \<Rightarrow> real \<Rightarrow> real" where
  "phi sigma1 sigma2 = sigma1 + sigma2 - (\<bar>sigma1\<bar> * sigma2 + sigma1 * \<bar>sigma2\<bar>) / 2"

subsection \<open>The three-region compositor\<close>

text \<open>
  The source divides doubles without a guard. A division by a zero denominator does not
  trap: it yields an infinity or a NaN, which every later addition or subtraction keeps
  non-finite. The model makes that outcome explicit: \<open>ddiv\<close> returns \<open>None\<close> on a zero
  denominator, and a compositor function is \<open>None\<close> as soon as one of its quotients is.
  The gains \<open>alpha1\<close> and \<open>alpha2\<close> are process-wide variables in the source and are passed
  explicitly here.
\<close>

definition ddiv :: "real \<Rightarrow> real \<Rightarrow> real option" where
  "ddiv n d = (if d = 0 then None else Some (n / d))"

definition phi1 :: "real \<Rightarrow> real \<Rightarrow> real \<Rightarrow> real \<Rightarrow> real option" where
  "phi1 alpha1 alpha2 sigma1 sigma2 = do {
     q1 \<leftarrow> ddiv ((alpha1*alpha2*sigma1*(sigma2 + 1))/2 - (alpha1*alpha2*sigma1*sigma2)/2
                  + (alpha1*alpha2*sigma2*(sigma1 + 1))/2)
                ((sigma1 + 1)*(sigma2 + 1) + alpha1*alpha2*sigma1*sigma2
                  - alpha1*alpha2*sigma1*(sigma2 + 1) - alpha1*alpha2*sigma2*(sigma1 + 1));
     q2 \<leftarrow> ddiv ((sigma1*(sigma2 + 1))/2 - (sigma1*sigma2)/2 + (sigma2*(sigma1 + 1))/2)
                (sigma1*sigma2 - sigma1*(sigma2 + 1) - sigma2*(sigma1 + 1)
                  + alpha1*alpha2*(sigma1 + 1)*(sigma2 + 1));
     Some (q1 + q2)
   }"

definition phi2 :: "real \<Rightarrow> real \<Rightarrow> real \<Rightarrow> real \<Rightarrow> real option" where
  "phi2 alpha1 alpha2 sigma1 sigma2 = do {
     q1 \<leftarrow> ddiv ((sigma1*(sigma2 + 1))/2 - (alpha1*alpha2*sigma2*(sigma1 - 1))/2)
                (sigma1*(sigma2 + 1) - alpha1*alpha2*sigma1*sigma2
                  + alpha1*alpha2*sigma2*(sigma1 - 1) - alpha1*alpha2*(sigma1 - 1)*(sigma2 + 1));
     q2 \<leftarrow> ddiv ((sigma2*(sigma1 - 1))/2 - (alpha1*alpha2*sigma1*(sigma2 + 1))/2)
                (sigma2*(sigma1 - 1) - alpha1*alpha2*sigma1*sigma2
                  + alpha1*alpha2*sigma1*(sigma2 + 1) - alpha1*alpha2*(sigma1 - 1)*(sigma2 + 1));
     Some (q1 - q2)
   }"

definition phi3 :: "real \<Rightarrow> real \<Rightarrow> real \<Rightarrow> real \<Rightarrow> real option" where
  "phi3 alpha1 alpha2 sigma1 sigma2 = do {
     q1 \<leftarrow> ddiv (- ((alpha1*alpha2*sigma1*(sigma2 - 1))/2 - (alpha1*alpha2*sigma1*sigma2)/2
                  + (alpha1*alpha2*sigma2*(sigma1 - 1))/2))
                ((sigma1 - 1)*(sigma2 - 1) + alpha1*alpha2*sigma1*sigma2
                  - alpha1*alpha2*sigma1*(sigma2 - 1) - alpha1*alpha2*sigma2*(sigma1 - 1));
     q2 \<leftarrow> ddiv ((sigma1*(sigma2 - 1))/2 - (sigma1*sigma2)/2 + (sigma2*(sigma1 - 1))/2)
                (sigma1*sigma2 - sigma1*(sigma2 - 1) - sigma2*(sigma1 - 1)
                  + alpha1*alpha2*(sigma1 - 1)*(sigma2 - 1));
     Some (q1 - q2)
   }"

definition omega12 :: "real \<Rightarrow> real \<Rightarrow> real \<Rightarrow> real option" where
  "omega12 alpha1 alpha2 sigma1 =
     (if sigma1 \<le> 0
      then ddiv (- alpha1 * alpha2 * sigma1) (sigma1 - alpha1 * alpha2 * sigma1 + 1)
      else ddiv (- sigma1) (sigma1 + alpha1 * alpha2 - alpha1 * alpha2 * sigma1))"

definition omega23 :: "real \<Rightarrow> real \<Rightarrow> real \<Rightarrow> real option" where
  "omega23 alpha1 alpha2 sigma1 =
     (if sigma1 \<le> 0
      then ddiv (- sigma1) (alpha1 * alpha2 - sigma1 + alpha1 * alpha2 * sigma1)
      else ddiv (- alpha1 * alpha2 * sigma1) (alpha1 * alpha2 * sigma1 - sigma1 + 1))"

section \<open>Controller state\<close>

text \<open>
  An Eigen \<open>Vector4d\<close> is four doubles, read in the source as \<open>v(0)\<close> ... \<open>v(3)\<close>:
  the components x, y, z and yaw.
\<close>

datatype Vector4d = Vector4d (v0: real) (v1: real) (v2: real) (v3: real)

definition vzero :: Vector4d where
  "vzero = Vector4d 0 0 0 0"

definition vadd :: "Vector4d \<Rightarrow> Vector4d \<Rightarrow> Vector4d" where
  "vadd a b = Vector4d (v0 a + v0 b) (v1 a + v1 b) (v2 a + v2 b) (v3 a + v3 b)"

definition vsub :: "Vector4d \<Rightarrow> Vector4d \<Rightarrow> Vector4d" where
  "vsub a b = Vector4d (v0 a - v0 b) (v1 a - v1 b) (v2 a - v2 b) (v3 a - v3 b)"

definition vscale :: "Vector4d \<Rightarrow> real \<Rightarrow> Vector4d" where
  "vscale a c = Vector4d (v0 a * c) (v1 a * c) (v2 a * c) (v3 a * c)"

text \<open>Coefficient access \<open>v(i)\<close> for an index \<open>i < 4\<close>.\<close>

definition coeff :: "Vector4d \<Rightarrow> nat \<Rightarrow> real" where
  "coeff v i = (if i = 0 then v0 v else if i = 1 then v1 v else if i = 2 then v2 v else v3 v)"

text \<open>The published \<open>geometry_msgs::Quaternion\<close>, fields x, y, z, w.\<close>

record Quaternion =
  quat_x :: real
  quat_y :: real
  quat_z :: real
  quat_w :: real

text \<open>The fields of \<open>controllers::setDIT2FLCConfig\<close> that the reconfigure callback reads.\<close>

record setDIT2FLCConfig =
  config_k_p :: real
  config_k_d :: real
  config_k_a :: real
  config_k_b :: real
  config_alpha_p :: real
  config_alpha_d :: real

text \<open>
  The process-wide variables and the members of the controller object, gathered in one
  record. The timing diagnostics of \<open>run\<close> (\<open>time\<close>, \<open>c\<close>), which only feed a print that is
  commented out, are left out.
\<close>

record controller =
  pose :: Vector4d
  pose_d :: Vector4d
  velocity :: Vector4d
  velocity_d :: Vector4d
  error :: Vector4d
  error_d :: Vector4d
  error_i :: Vector4d
  sigma1 :: Vector4d
  sigma2 :: Vector4d
  phi_p :: Vector4d
  phi_i :: Vector4d
  k_p :: real
  k_d :: real
  k_a :: real
  k_b :: real
  alpha1 :: real
  alpha2 :: real
  new_odometry :: bool

subsection \<open>Callbacks\<close>

text \<open>
  What the transport delivers between two ticks. An odometry message carries the position
  and the twist; the yaw is extracted from its orientation by the \<open>tf\<close> library, and is
  taken here as already extracted (fourth component of the first vector).
\<close>

datatype message =
    Odometry Vector4d Vector4d
  | Trajectory Vector4d
  | TrajectoryVelocity Vector4d
  | Reconfigure setDIT2FLCConfig

definition odometryCallback :: "Vector4d \<Rightarrow> Vector4d \<Rightarrow> controller \<Rightarrow> controller" where
  "odometryCallback p v s = s\<lparr>pose := p, velocity := v, new_odometry := True\<rparr>"

definition trajectoryCallback :: "Vector4d \<Rightarrow> controller \<Rightarrow> controller" where
  "trajectoryCallback p s = s\<lparr>pose_d := p\<rparr>"

definition trajectoryVelocityCallback :: "Vector4d \<Rightarrow> controller \<Rightarrow> controller" where
  "trajectoryVelocityCallback v s = s\<lparr>velocity_d := v\<rparr>"

definition dynamicReconfigureCallback :: "setDIT2FLCConfig \<Rightarrow> controller \<Rightarrow> controller" where
  "dynamicReconfigureCallback config s =
     s\<lparr>k_p := config_k_p config, k_d := config_k_d config,
       k_a := config_k_a config, k_b := config_k_b config,
       alpha1 := config_alpha_p config, alpha2 := config_alpha_d config\<rparr>"

fun deliver :: "message \<Rightarrow> controller \<Rightarrow> controller" where
  "deliver (Odometry p v) s = odometryCallback p v s"
| "deliver (Trajectory p) s = trajectoryCallback p s"
| "deliver (TrajectoryVelocity v) s = trajectoryVelocityCallback v s"
| "deliver (Reconfigure config) s = dynamicReconfigureCallback config s"

text \<open>\<open>ros::spinOnce\<close>: the pending messages are handed to their callbacks, in order.\<close>

definition spinOnce :: "message list \<Rightarrow> controller \<Rightarrow> controller" where
  "spinOnce ms s = fold deliver ms s"

subsection \<open>Constructor\<close>

text \<open>
  \<open>argv\<close> is the list of the \<open>argc\<close> supplied strings (so \<open>argc = length argv\<close>, the program
  name included). Reading \<open>argv[i]\<close> at \<open>i \<ge> argc\<close> leaves the supplied arguments: that
  read is \<open>None\<close>. The C library's \<open>atof\<close> is a parameter. The record \<open>s0\<close> stands for the
  object before construction; the constructor does not assign \<open>error\<close>, \<open>error_d\<close>,
  \<open>sigma1\<close>, \<open>sigma2\<close> and \<open>phi_p\<close>.
\<close>

definition arg :: "string list \<Rightarrow> nat \<Rightarrow> string option" where
  "arg argv i = (if i < length argv then Some (argv ! i) else None)"

definition DI_IT2_FLC_FM :: "(string \<Rightarrow> real) \<Rightarrow> string list \<Rightarrow> controller \<Rightarrow> controller option" where
  "DI_IT2_FLC_FM atof argv s0 = do {
     let s = s0\<lparr>pose := vzero, pose_d := vzero, velocity := vzero, velocity_d := vzero,
                error_i := vzero, phi_i := vzero\<rparr>;
     s' \<leftarrow> (if length argv > 1 then do {
              a1 \<leftarrow> arg argv 1;
              a2 \<leftarrow> arg argv 2;
              a3 \<leftarrow> arg argv 3;
              a4 \<leftarrow> arg argv 4;
              a5 \<leftarrow> arg argv 5;
              a6 \<leftarrow> arg argv 6;
              Some (s\<lparr>k_p := atof a1, k_d := atof a2, k_a := atof a3, k_b := atof a4,
                      alpha1 := atof a5, alpha2 := atof a6\<rparr>)
            }
            else Some (s\<lparr>k_p := 1.0, k_d := 0.004, k_a := 0.077, k_b := 7.336,
                         alpha1 := 0.5, alpha2 := 0.5\<rparr>));
     Some (s'\<lparr>new_odometry := False\<rparr>)
   }"

subsection \<open>The control loop\<close>

definition dt :: real where
  "dt = 1 / 100"

text \<open>Lines 151 to 163 of \<open>run\<close>: yaw unwrapping, errors, bounded signals, both integrals.\<close>

definition update_errors :: "controller \<Rightarrow> controller" where
  "update_errors s =
     (let pose' = Vector4d (v0 (pose s)) (v1 (pose s)) (v2 (pose s))
                    (denormalizeAngle (v3 (pose s)) (v3 (pose_d s)));
          error' = vsub (pose_d s) pose';
          error_d' = vsub (velocity_d s) (velocity s);
          error_i' = vadd (error_i s) (vscale error' dt);
          sigma1' = Vector4d (bound (k_p s * v0 error')) (bound (k_p s * v1 error'))
                      (bound (k_p s * v2 error')) (bound (k_p s * v3 error'));
          sigma2' = Vector4d (bound (k_d s * v0 error_d')) (bound (k_d s * v1 error_d'))
                      (bound (k_d s * v2 error_d')) (bound (k_d s * v3 error_d'));
          phi_p' = Vector4d (phi (v0 sigma1') (v0 sigma2')) (phi (v1 sigma1') (v1 sigma2'))
                     (phi (v2 sigma1') (v2 sigma2')) (phi (v3 sigma1') (v3 sigma2'));
          phi_i' = vadd (phi_i s) (vscale phi_p' dt)
      in s\<lparr>pose := pose', error := error', error_d := error_d', error_i := error_i',
           sigma1 := sigma1', sigma2 := sigma2', phi_p := phi_p', phi_i := phi_i'\<rparr>)"

text \<open>Lines 165 to 168 of \<open>run\<close>: the command, composed from the updated state.\<close>

definition velocity_msg :: "controller \<Rightarrow> Quaternion" where
  "velocity_msg s =
     \<lparr>quat_x = k_a s * v0 (phi_p s) + k_b s * v0 (phi_i s) + (1 - alpha1 s * alpha2 s) * v0 (error_i s),
      quat_y = k_a s * v1 (phi_p s) + k_b s * v1 (phi_i s) + (1 - alpha1 s * alpha2 s) * v1 (error_i s),
      quat_z = k_a s * v2 (phi_p s) + k_b s * v2 (phi_i s) + (1 - alpha1 s * alpha2 s) * v2 (error_i s),
      quat_w = v3 (phi_p s)\<rparr>"

text \<open>
  One pass through the body of the \<open>while\<close> loop after \<open>spinOnce\<close>: the guarded block and
  the clearing of the flag. The second component is the message handed to \<open>publish\<close>, if
  any.
\<close>

definition tick :: "controller \<Rightarrow> controller \<times> Quaternion option" where
  "tick s =
     (if v2 (pose_d s) > -10 \<and> new_odometry s
      then (let s' = update_errors s in (s'\<lparr>new_odometry := False\<rparr>, Some (velocity_msg s')))
      else (s\<lparr>new_odometry := False\<rparr>, None))"

text \<open>
  The loop of \<open>run\<close>, for as many iterations as there are batches of delivered messages
  (\<open>ros::ok()\<close> holds for exactly these iterations). It returns the final state and the
  messages published, in order.
\<close>

fun run :: "message list list \<Rightarrow> controller \<Rightarrow> controller \<times> Quaternion list" where
  "run [] s = (s, [])"
| "run (b # bs) s =
     (case tick (spinOnce b s) of
        (s1, out) \<Rightarrow>
          (case run bs s1 of
             (s2, outs) \<Rightarrow> (s2, (case out of None \<Rightarrow> [] | Some m \<Rightarrow> [m]) @ outs)))"

subsection \<open>Runs of the loop\<close>

text \<open>
  The sentinel holds at every tick of a run: after each delivery, the third component of
  the desired pose is at most \<open>-10\<close>.
\<close>

fun sentinel_holds :: "message list list \<Rightarrow> controller \<Rightarrow> bool" where
  "sentinel_holds [] s = True"
| "sentinel_holds (b # bs) s =
     (let s1 = spinOnce b s in v2 (pose_d s1) \<le> -10 \<and> sentinel_holds bs (fst (tick s1)))"

text \<open>No tick of a run is valid: at each of them the sentinel holds or no fresh sample is present.\<close>

fun no_valid_tick :: "message list list \<Rightarrow> controller \<Rightarrow> bool" where
  "no_valid_tick [] s = True"
| "no_valid_tick (b # bs) s =
     (let s1 = spinOnce b s in
        \<not> (v2 (pose_d s1) > -10 \<and> new_odometry s1) \<and> no_valid_tick bs (fst (tick s1)))"

text \<open>
  Every tick of a run is valid (the gate is open and a fresh sample is present), and the
  position error computed at each of them is \<open>e\<close> on axis \<open>i\<close>.
\<close>

fun constant_error_run :: "nat \<Rightarrow> real \<Rightarrow> message list list \<Rightarrow> controller \<Rightarrow> bool" where
  "constant_error_run i e [] s = True"
| "constant_error_run i e (b # bs) s =
     (let s1 = spinOnce b s in
        v2 (pose_d s1) > -10 \<and> new_odometry s1 \<and> coeff (error (fst (tick s1))) i = e \<and>
        constant_error_run i e bs (fst (tick s1)))"

text \<open>
  A concrete state for the examples: the controller right after construction without
  arguments, the members that the constructor leaves unassigned being zero.
\<close>

abbreviation at_rest :: controller where
  "at_rest \<equiv> \<lparr>pose = vzero, pose_d = vzero, velocity = vzero, velocity_d = vzero,
     error = vzero, error_d = vzero, error_i = vzero, sigma1 = vzero, sigma2 = vzero,
     phi_p = vzero, phi_i = vzero, k_p = 1, k_d = 0.004, k_a = 0.077, k_b = 7.336,
     alpha1 = 0.5, alpha2 = 0.5, new_odometry = False\<rparr>"

text \<open>
  Scenario B of the specification, ready for its single tick: \<open>alpha1 = alpha2 = 0.5\<close>,
  \<open>k_a = 1\<close>, \<open>k_b = 0\<close>, zero integrals, the desired pose given and a fresh sample
  present. The position error is 1 on x in the first state, and 3 on y only in the second.
\<close>

abbreviation scenario_B_x :: controller where
  "scenario_B_x \<equiv>
     at_rest\<lparr>pose_d := Vector4d 1 0 0 0, k_a := 1, k_b := 0, new_odometry := True\<rparr>"

abbreviation scenario_B_y :: controller where
  "scenario_B_y \<equiv>
     at_rest\<lparr>pose_d := Vector4d 0 3 0 0, k_a := 1, k_b := 0, new_odometry := True\<rparr>"

section \<open>Auxiliary facts\<close>

lemmas eval_defs = tick_def update_errors_def velocity_msg_def Let_def vzero_def vadd_def vsub_def
  vscale_def denormalizeAngle_def M_PI_def bound_def phi_def dt_def spinOnce_def
  odometryCallback_def trajectoryCallback_def trajectoryVelocityCallback_def
  dynamicReconfigureCallback_def coeff_def

lemma phi_unit:
  assumes "-1 \<le> s1" "s1 \<le> 1" "-1 \<le> s2" "s2 \<le> 1"
  shows "-1 \<le> phi s1 s2 \<and> phi s1 s2 \<le> 1"
proof -
  consider (pp) "0 \<le> s1" "0 \<le> s2" | (nn) "s1 < 0" "s2 < 0"
    | (pn) "0 \<le> s1" "s2 < 0" | (np) "s1 < 0" "0 \<le> s2"
    by linarith
  then show ?thesis
  proof cases
    case pp
    have e: "phi s1 s2 = 1 - (1 - s1) * (1 - s2)"
      using pp by (simp add: phi_def algebra_simps)
    have "0 \<le> (1 - s1) * (1 - s2)" using assms by simp
    moreover have "(1 - s1) * (1 - s2) \<le> 1 * 1"
      using assms pp by (intro mult_mono) simp_all
    ultimately show ?thesis unfolding e by simp
  next
    case nn
    have e: "phi s1 s2 = (1 + s1) * (1 + s2) - 1"
      using nn by (simp add: phi_def algebra_simps)
    have "0 \<le> (1 + s1) * (1 + s2)" using assms by simp
    moreover have "(1 + s1) * (1 + s2) \<le> 1 * 1"
      using assms nn by (intro mult_mono) simp_all
    ultimately show ?thesis unfolding e by simp
  next
    case pn
    have "phi s1 s2 = s1 + s2" using pn by (simp add: phi_def)
    then show ?thesis using assms pn by simp
  next
    case np
    have "phi s1 s2 = s1 + s2" using np by (simp add: phi_def)
    then show ?thesis using assms np by simp
  qed
qed

lemma phi_continuous: "continuous_on A (\<lambda>p. phi (fst p) (snd p))"
  unfolding phi_def by (intro continuous_intros) simp

lemma tick_valid:
  "v2 (pose_d s) > -10 \<Longrightarrow> new_odometry s \<Longrightarrow>
   tick s = ((update_errors s)\<lparr>new_odometry := False\<rparr>, Some (velocity_msg (update_errors s)))"
  by (simp add: tick_def Let_def)

lemma tick_skipped:
  "\<not> (v2 (pose_d s) > -10 \<and> new_odometry s) \<Longrightarrow> tick s = (s\<lparr>new_odometry := False\<rparr>, None)"
  by (auto simp add: tick_def)

lemma update_errors_integrals:
  "error_i (update_errors s) = vadd (error_i s) (vscale (error (update_errors s)) dt)"
  "phi_i (update_errors s) = vadd (phi_i s) (vscale (phi_p (update_errors s)) dt)"
  by (simp_all add: update_errors_def Let_def)

lemma update_errors_gains:
  "k_a (update_errors s) = k_a s" "k_b (update_errors s) = k_b s"
  "alpha1 (update_errors s) = alpha1 s" "alpha2 (update_errors s) = alpha2 s"
  by (simp_all add: update_errors_def Let_def)

lemma deliver_integrals: "error_i (deliver m s) = error_i s \<and> phi_i (deliver m s) = phi_i s"
  by (cases m) (simp_all add: odometryCallback_def trajectoryCallback_def
      trajectoryVelocityCallback_def dynamicReconfigureCallback_def)

lemma spinOnce_integrals: "error_i (spinOnce b s) = error_i s \<and> phi_i (spinOnce b s) = phi_i s"
  unfolding spinOnce_def by (induction b arbitrary: s) (simp_all add: deliver_integrals)

lemma deliver_computed:
  "error (deliver m s) = error s \<and> error_d (deliver m s) = error_d s
   \<and> sigma1 (deliver m s) = sigma1 s \<and> sigma2 (deliver m s) = sigma2 s
   \<and> phi_p (deliver m s) = phi_p s"
  by (cases m) (simp_all add: odometryCallback_def trajectoryCallback_def
      trajectoryVelocityCallback_def dynamicReconfigureCallback_def)

lemma spinOnce_computed:
  "error (spinOnce b s) = error s \<and> error_d (spinOnce b s) = error_d s
   \<and> sigma1 (spinOnce b s) = sigma1 s \<and> sigma2 (spinOnce b s) = sigma2 s
   \<and> phi_p (spinOnce b s) = phi_p s"
  unfolding spinOnce_def by (induction b arbitrary: s) (simp_all add: deliver_computed)

lemma deliver_not_odometry:
  "(\<forall>p v. m \<noteq> Odometry p v) \<Longrightarrow> new_odometry (deliver m s) = new_odometry s"
  by (cases m) (simp_all add: trajectoryCallback_def trajectoryVelocityCallback_def
      dynamicReconfigureCallback_def)

lemma spinOnce_not_odometry:
  "(\<forall>p v. Odometry p v \<notin> set b) \<Longrightarrow> new_odometry (spinOnce b s) = new_odometry s"
  unfolding spinOnce_def
proof (induction b arbitrary: s)
  case Nil
  then show ?case by simp
next
  case (Cons m b)
  from Cons.prems have m: "\<forall>p v. m \<noteq> Odometry p v" and b: "\<forall>p v. Odometry p v \<notin> set b"
    by auto
  show ?case using Cons.IH [OF b] deliver_not_odometry [OF m] by simp
qed

lemma run_Cons_fst: "fst (run (b # bs) s) = fst (run bs (fst (tick (spinOnce b s))))"
  by (simp split: prod.splits)

lemma run_Cons_snd:
  "snd (run (b # bs) s) =
     (case snd (tick (spinOnce b s)) of None \<Rightarrow> [] | Some m \<Rightarrow> [m])
       @ snd (run bs (fst (tick (spinOnce b s))))"
  by (simp split: prod.splits)

lemma run_append_fst: "fst (run (xs @ ys) s) = fst (run ys (fst (run xs s)))"
  by (induction xs arbitrary: s) (simp_all add: run_Cons_fst del: run.simps(2))

lemma run_append_snd:
  "snd (run (xs @ ys) s) = snd (run xs s) @ snd (run ys (fst (run xs s)))"
  by (induction xs arbitrary: s) (simp_all add: run_Cons_fst run_Cons_snd del: run.simps(2))

lemma sentinel_run:
  "sentinel_holds bs s \<Longrightarrow>
     snd (run bs s) = [] \<and> error_i (fst (run bs s)) = error_i s \<and> phi_i (fst (run bs s)) = phi_i s
     \<and> error (fst (run bs s)) = error s \<and> error_d (fst (run bs s)) = error_d s
     \<and> sigma1 (fst (run bs s)) = sigma1 s \<and> sigma2 (fst (run bs s)) = sigma2 s
     \<and> phi_p (fst (run bs s)) = phi_p s"
proof (induction bs arbitrary: s)
  case Nil
  then show ?case by simp
next
  case (Cons b bs)
  let ?s1 = "spinOnce b s"
  from Cons.prems have g: "v2 (pose_d ?s1) \<le> -10" and r: "sentinel_holds bs (fst (tick ?s1))"
    by (simp_all add: Let_def)
  have t: "tick ?s1 = (?s1\<lparr>new_odometry := False\<rparr>, None)"
    using g by (simp add: tick_skipped)
  from Cons.IH [OF r] show ?case
    by (simp add: run_Cons_fst run_Cons_snd t spinOnce_integrals spinOnce_computed
        del: run.simps(2))
qed

lemma no_valid_tick_run: "no_valid_tick bs s \<Longrightarrow> snd (run bs s) = []"
proof (induction bs arbitrary: s)
  case Nil
  then show ?case by simp
next
  case (Cons b bs)
  let ?s1 = "spinOnce b s"
  from Cons.prems have g: "\<not> (v2 (pose_d ?s1) > -10 \<and> new_odometry ?s1)"
    and r: "no_valid_tick bs (fst (tick ?s1))"
    by (simp_all add: Let_def)
  have t: "tick ?s1 = (?s1\<lparr>new_odometry := False\<rparr>, None)"
    using g by (rule tick_skipped)
  from Cons.IH [OF r] show ?case
    by (simp add: run_Cons_snd t del: run.simps(2))
qed

lemma coeff_vadd: "coeff (vadd a b) i = coeff a i + coeff b i"
  by (simp add: coeff_def vadd_def)

lemma coeff_vscale: "coeff (vscale a c) i = coeff a i * c"
  by (simp add: coeff_def vscale_def)

lemma integral_run:
  "constant_error_run i e bs s \<Longrightarrow>
   coeff (error_i (fst (run bs s))) i = coeff (error_i s) i + real (length bs) * e * dt"
proof (induction bs arbitrary: s)
  case Nil
  then show ?case by simp
next
  case (Cons b bs)
  let ?s1 = "spinOnce b s"
  from Cons.prems have g: "v2 (pose_d ?s1) > -10" "new_odometry ?s1"
    and e: "coeff (error (fst (tick ?s1))) i = e"
    and r: "constant_error_run i e bs (fst (tick ?s1))"
    by (simp_all add: Let_def)
  have t: "tick ?s1 =
      ((update_errors ?s1)\<lparr>new_odometry := False\<rparr>, Some (velocity_msg (update_errors ?s1)))"
    using g by (simp add: tick_valid)
  have "coeff (error_i (fst (tick ?s1))) i = coeff (error_i s) i + e * dt"
    using e by (simp add: t update_errors_integrals coeff_vadd coeff_vscale spinOnce_integrals)
  with Cons.IH [OF r] show ?case
    by (simp add: run_Cons_fst algebra_simps del: run.simps(2))
qed

section \<open>The control loop\<close>

text \<open>
  C1. On every valid tick (desired z above \<open>-10\<close> and a fresh sample present) a command is
  published; its x, y and z components are
  \<open>k_a * phi_p(i) + k_b * phi_i(i) + (1 - alpha1 * alpha2) * error_i(i)\<close> over the state
  as updated by that tick, and its w (yaw) component is \<open>phi_p(3)\<close> alone. The updated
  \<open>phi_p\<close> is \<open>phi\<close> of the bounded, scaled errors, and both integrals have advanced by
  \<open>dt\<close> times the new value.
\<close>

theorem command_composition:
  assumes "v2 (pose_d s) > -10" and "new_odometry s"
  shows "case tick s of (s', out) \<Rightarrow>
     out = Some \<lparr>quat_x = k_a s * v0 (phi_p s') + k_b s * v0 (phi_i s')
                            + (1 - alpha1 s * alpha2 s) * v0 (error_i s'),
                 quat_y = k_a s * v1 (phi_p s') + k_b s * v1 (phi_i s')
                            + (1 - alpha1 s * alpha2 s) * v1 (error_i s'),
                 quat_z = k_a s * v2 (phi_p s') + k_b s * v2 (phi_i s')
                            + (1 - alpha1 s * alpha2 s) * v2 (error_i s'),
                 quat_w = v3 (phi_p s')\<rparr>
     \<and> phi_p s' = Vector4d (phi (bound (k_p s * v0 (error s'))) (bound (k_d s * v0 (error_d s'))))
                          (phi (bound (k_p s * v1 (error s'))) (bound (k_d s * v1 (error_d s'))))
                          (phi (bound (k_p s * v2 (error s'))) (bound (k_d s * v2 (error_d s'))))
                          (phi (bound (k_p s * v3 (error s'))) (bound (k_d s * v3 (error_d s'))))
     \<and> phi_i s' = vadd (phi_i s) (vscale (phi_p s') dt)
     \<and> error_i s' = vadd (error_i s) (vscale (error s') dt)"
  using assms by (simp add: tick_valid velocity_msg_def update_errors_def Let_def)

theorem command_composition_witness:
  "v2 (pose_d (spinOnce [Trajectory (Vector4d 1 0 0 0), Odometry vzero vzero] at_rest)) > -10
   \<and> new_odometry (spinOnce [Trajectory (Vector4d 1 0 0 0), Odometry vzero vzero] at_rest)
   \<and> snd (tick (spinOnce [Trajectory (Vector4d 1 0 0 0), Odometry vzero vzero] at_rest))
       = Some \<lparr>quat_x = 15786 / 100000, quat_y = 0, quat_z = 0, quat_w = 0\<rparr>"
  using command_composition
    [of "spinOnce [Trajectory (Vector4d 1 0 0 0), Odometry vzero vzero] at_rest"]
  by (simp add: eval_defs)

text \<open>
  C2. While the third component of the desired pose holds the sentinel (at most \<open>-10\<close>) at
  every tick of a run, whatever else is delivered, nothing is published, neither integral
  changes, and none of the quantities a valid tick computes (\<open>error\<close>, \<open>error_d\<close>,
  \<open>sigma1\<close>, \<open>sigma2\<close>, \<open>phi_p\<close>) is touched. At the first tick afterwards at which the
  desired z is above \<open>-10\<close> and a fresh sample is present (no tick in between being
  valid), the run extended up to that tick has published exactly one command.
\<close>

theorem gating:
  assumes "sentinel_holds bs s"
  shows "snd (run bs s) = []
     \<and> error_i (fst (run bs s)) = error_i s \<and> phi_i (fst (run bs s)) = phi_i s
     \<and> error (fst (run bs s)) = error s \<and> error_d (fst (run bs s)) = error_d s
     \<and> sigma1 (fst (run bs s)) = sigma1 s \<and> sigma2 (fst (run bs s)) = sigma2 s
     \<and> phi_p (fst (run bs s)) = phi_p s
     \<and> (no_valid_tick cs (fst (run bs s))
          \<and> v2 (pose_d (spinOnce b (fst (run (bs @ cs) s)))) > -10
          \<and> new_odometry (spinOnce b (fst (run (bs @ cs) s)))
          \<longrightarrow> (\<exists>m. snd (run (bs @ cs @ [b]) s) = [m]))"
proof -
  note h = sentinel_run [OF assms]
  have "\<exists>m. snd (run (bs @ cs @ [b]) s) = [m]"
    if c: "no_valid_tick cs (fst (run bs s))"
      and g: "v2 (pose_d (spinOnce b (fst (run (bs @ cs) s)))) > -10"
      and n: "new_odometry (spinOnce b (fst (run (bs @ cs) s)))"
  proof -
    have 1: "snd (run (bs @ cs) s) = []"
      using h no_valid_tick_run [OF c] by (simp add: run_append_snd)
    have "snd (run ((bs @ cs) @ [b]) s) = [velocity_msg (update_errors (spinOnce b (fst (run (bs @ cs) s))))]"
      unfolding run_append_snd [of "bs @ cs" "[b]"] 1
      by (simp add: run_Cons_snd tick_valid [OF g n] del: run.simps(2))
    then show ?thesis by simp
  qed
  with h show ?thesis by blast
qed

theorem gating_witness:
  "sentinel_holds [[Trajectory (Vector4d 0 0 (-20) 0), Odometry vzero vzero],
                   [Odometry (Vector4d 1 1 1 0) vzero]] at_rest
   \<and> snd (run [[Trajectory (Vector4d 0 0 (-20) 0), Odometry vzero vzero],
               [Odometry (Vector4d 1 1 1 0) vzero]] at_rest) = []
   \<and> no_valid_tick [[Trajectory (Vector4d 1 0 5 0)]]
        (fst (run [[Trajectory (Vector4d 0 0 (-20) 0), Odometry vzero vzero],
                   [Odometry (Vector4d 1 1 1 0) vzero]] at_rest))
   \<and> length (snd (run ([[Trajectory (Vector4d 0 0 (-20) 0), Odometry vzero vzero],
                         [Odometry (Vector4d 1 1 1 0) vzero]]
                        @ [[Trajectory (Vector4d 1 0 5 0)]]
                        @ [[Odometry vzero vzero]]) at_rest)) = 1"
  using gating
    [of "[[Trajectory (Vector4d 0 0 (-20) 0), Odometry vzero vzero],
          [Odometry (Vector4d 1 1 1 0) vzero]]"
        at_rest "[[Trajectory (Vector4d 1 0 5 0)]]" "[Odometry vzero vzero]"]
  by (simp add: eval_defs)

text \<open>
  C3. Starting from a zero position-error integral, after a run of \<open>N\<close> valid ticks at
  each of which the position error on axis \<open>i\<close> is \<open>e\<close>, the position-error integral on
  that axis is \<open>N * e * dt\<close> (in exact arithmetic).
\<close>

theorem integral_accumulation:
  assumes "i < 4" and "error_i s = vzero" and "constant_error_run i e bs s"
  shows "coeff (error_i (fst (run bs s))) i = real (length bs) * e * dt"
  using integral_run [OF assms(3)] assms(2) by (simp add: coeff_def vzero_def)

theorem integral_accumulation_witness:
  "(0::nat) < 4 \<and> error_i (at_rest\<lparr>pose_d := Vector4d 2 0 0 0\<rparr>) = vzero
   \<and> constant_error_run 0 2 [[Odometry vzero vzero], [Odometry vzero vzero], [Odometry vzero vzero]]
        (at_rest\<lparr>pose_d := Vector4d 2 0 0 0\<rparr>)
   \<and> coeff (error_i (fst (run [[Odometry vzero vzero], [Odometry vzero vzero], [Odometry vzero vzero]]
                            (at_rest\<lparr>pose_d := Vector4d 2 0 0 0\<rparr>)))) 0 = 3 * 2 * dt"
  using integral_accumulation
    [of 0 "at_rest\<lparr>pose_d := Vector4d 2 0 0 0\<rparr>" 2
        "[[Odometry vzero vzero], [Odometry vzero vzero], [Odometry vzero vzero]]"]
  by (simp add: eval_defs)

text \<open>
  C4. A tick without a fresh sample returns the state as it was and publishes nothing;
  after any tick the freshness flag is cleared. In particular, when the flag is clear and
  the delivery before the tick contains no odometry message, the tick changes nothing,
  publishes nothing, and both integrals are what they were before the delivery.
\<close>

theorem stale_tick:
  "(\<not> new_odometry s \<longrightarrow> tick s = (s, None))
   \<and> \<not> new_odometry (fst (tick s))
   \<and> (\<not> new_odometry s \<and> (\<forall>p v. Odometry p v \<notin> set b) \<longrightarrow>
        tick (spinOnce b s) = (spinOnce b s, None)
        \<and> error_i (fst (tick (spinOnce b s))) = error_i s
        \<and> phi_i (fst (tick (spinOnce b s))) = phi_i s)"
proof -
  have a: "tick s = (s, None)" if "\<not> new_odometry s" for s
    using that by (simp add: tick_def)
  have b: "\<not> new_odometry (fst (tick s))"
    by (simp add: tick_def Let_def)
  have c: "tick (spinOnce b s) = (spinOnce b s, None)
        \<and> error_i (fst (tick (spinOnce b s))) = error_i s
        \<and> phi_i (fst (tick (spinOnce b s))) = phi_i s"
    if "\<not> new_odometry s" and "\<forall>p v. Odometry p v \<notin> set b"
  proof -
    have "\<not> new_odometry (spinOnce b s)"
      using that by (simp add: spinOnce_not_odometry)
    then show ?thesis by (simp add: a spinOnce_integrals)
  qed
  from a b c show ?thesis by blast
qed

theorem stale_tick_witness:
  "\<not> new_odometry (at_rest\<lparr>error_i := Vector4d 1 2 3 4\<rparr>)
   \<and> (\<forall>p v. Odometry p v \<notin> set [Trajectory (Vector4d 1 0 5 0)])
   \<and> snd (tick (spinOnce [Trajectory (Vector4d 1 0 5 0)] (at_rest\<lparr>error_i := Vector4d 1 2 3 4\<rparr>))) = None
   \<and> error_i (fst (tick (spinOnce [Trajectory (Vector4d 1 0 5 0)] (at_rest\<lparr>error_i := Vector4d 1 2 3 4\<rparr>))))
       = Vector4d 1 2 3 4"
  using stale_tick [of "at_rest\<lparr>error_i := Vector4d 1 2 3 4\<rparr>" "[Trajectory (Vector4d 1 0 5 0)]"]
  by (simp add: eval_defs)

text \<open>
  C5, as stated, fails: with \<open>alpha1 = alpha2 = 0.5\<close>, \<open>k_a = 1\<close>, \<open>k_b = 0\<close>, zero integrals
  and a position error of 1 on x, the first valid tick publishes \<open>x = 403/400\<close> while
  \<open>phi_p(0) = 1\<close>: the position-error integral is advanced before the command is composed.
\<close>

theorem first_tick_counterexample:
  "alpha1 scenario_B_x = 0.5 \<and> alpha2 scenario_B_x = 0.5
   \<and> k_a scenario_B_x = 1 \<and> k_b scenario_B_x = 0
   \<and> error_i scenario_B_x = vzero \<and> phi_i scenario_B_x = vzero
   \<and> v2 (pose_d scenario_B_x) > -10 \<and> new_odometry scenario_B_x
   \<and> map_option quat_x (snd (tick scenario_B_x)) = Some (403 / 400)
   \<and> v0 (phi_p (fst (tick scenario_B_x))) = 1
   \<and> map_option quat_x (snd (tick scenario_B_x)) \<noteq> Some (v0 (phi_p (fst (tick scenario_B_x))))"
  by (simp add: eval_defs)

text \<open>
  C5, amended. With \<open>alpha1 = alpha2 = 0.5\<close>, \<open>k_a = 1\<close> and \<open>k_b = 0\<close>, a single valid tick
  from zero integrals publishes \<open>x = phi_p(0) + 0.75 * error(0) * dt\<close>; this equals
  \<open>phi_p(0)\<close> exactly when the x position error of that tick is zero.
\<close>

theorem first_tick_command:
  assumes "alpha1 s = 0.5" and "alpha2 s = 0.5" and "k_a s = 1" and "k_b s = 0"
    and "error_i s = vzero" and "phi_i s = vzero"
    and "v2 (pose_d s) > -10" and "new_odometry s"
  shows "case tick s of (s', out) \<Rightarrow>
     map_option quat_x out = Some (v0 (phi_p s') + 0.75 * (v0 (error s') * dt))
     \<and> (map_option quat_x out = Some (v0 (phi_p s')) \<longleftrightarrow> v0 (error s') = 0)"
proof -
  let ?u = "update_errors s"
  have a: "1 - alpha1 ?u * alpha2 ?u = 3 / 4"
    unfolding update_errors_gains assms(1,2) by simp
  have x: "quat_x (velocity_msg ?u) = v0 (phi_p ?u) + 3 / 4 * (v0 (error ?u) * dt)"
    unfolding velocity_msg_def a
    by (simp add: update_errors_gains update_errors_integrals assms(3,4,5) vadd_def vscale_def
        vzero_def)
  have t: "tick s = (?u\<lparr>new_odometry := False\<rparr>, Some (velocity_msg ?u))"
    using assms(7,8) by (rule tick_valid)
  show ?thesis by (simp add: t x dt_def)
qed

theorem first_tick_command_witness:
  "alpha1 scenario_B_y = 0.5 \<and> alpha2 scenario_B_y = 0.5
   \<and> k_a scenario_B_y = 1 \<and> k_b scenario_B_y = 0
   \<and> error_i scenario_B_y = vzero \<and> phi_i scenario_B_y = vzero
   \<and> v2 (pose_d scenario_B_y) > -10 \<and> new_odometry scenario_B_y
   \<and> v0 (error (fst (tick scenario_B_y))) = 0
   \<and> map_option quat_x (snd (tick scenario_B_y)) = Some (v0 (phi_p (fst (tick scenario_B_y))))"
  using first_tick_command [of scenario_B_y]
  by (simp add: eval_defs)

section \<open>Startup\<close>

text \<open>
  C10. The gains are read all or none. With more than one and fewer than seven supplied
  strings (\<open>1 < argc < 7\<close>) the constructor reads past the supplied arguments; with
  \<open>argc \<le> 1\<close> the defaults \<open>k_p = 1.0\<close>, \<open>k_d = 0.004\<close>, \<open>k_a = 0.077\<close>, \<open>k_b = 7.336\<close>,
  \<open>alpha1 = alpha2 = 0.5\<close> apply; with \<open>argc \<ge> 7\<close> the six gains are \<open>atof\<close> of
  \<open>argv[1]\<close> ... \<open>argv[6]\<close>.
\<close>

theorem startup_gains:
  "(1 < length argv \<and> length argv < 7 \<longrightarrow> DI_IT2_FLC_FM atof argv s0 = None)
   \<and> (length argv \<le> 1 \<longrightarrow>
        (\<exists>s. DI_IT2_FLC_FM atof argv s0 = Some s
           \<and> k_p s = 1.0 \<and> k_d s = 0.004 \<and> k_a s = 0.077 \<and> k_b s = 7.336
           \<and> alpha1 s = 0.5 \<and> alpha2 s = 0.5))
   \<and> (7 \<le> length argv \<longrightarrow>
        (\<exists>s. DI_IT2_FLC_FM atof argv s0 = Some s
           \<and> k_p s = atof (argv ! 1) \<and> k_d s = atof (argv ! 2) \<and> k_a s = atof (argv ! 3)
           \<and> k_b s = atof (argv ! 4) \<and> alpha1 s = atof (argv ! 5) \<and> alpha2 s = atof (argv ! 6)))"
  by (simp add: DI_IT2_FLC_FM_def arg_def Let_def)

theorem startup_gains_witness:
  "1 < length [''controller'', ''2.0'', ''0.01''] \<and> length [''controller'', ''2.0'', ''0.01''] < 7
   \<and> DI_IT2_FLC_FM (\<lambda>a. real (length a)) [''controller'', ''2.0'', ''0.01''] at_rest = None
   \<and> length [''controller''] \<le> 1
   \<and> map_option k_b (DI_IT2_FLC_FM (\<lambda>a. real (length a)) [''controller''] at_rest) = Some 7.336
   \<and> 7 \<le> length [''controller'', ''a'', ''bb'', ''ccc'', ''dddd'', ''eeeee'', ''ffffff'']
   \<and> map_option alpha2
       (DI_IT2_FLC_FM (\<lambda>a. real (length a))
          [''controller'', ''a'', ''bb'', ''ccc'', ''dddd'', ''eeeee'', ''ffffff''] at_rest) = Some 6"
  using startup_gains [of "[''controller'', ''2.0'', ''0.01'']" "\<lambda>a. real (length a)" at_rest]
    startup_gains [of "[''controller'']" "\<lambda>a. real (length a)" at_rest]
    startup_gains [of "[''controller'', ''a'', ''bb'', ''ccc'', ''dddd'', ''eeeee'', ''ffffff'']"
      "\<lambda>a. real (length a)" at_rest]
  by (simp add: DI_IT2_FLC_FM_def arg_def vzero_def)

section \<open>Properties of the scalar functions\<close>

text \<open>
  C6, as stated, fails: the function shifts by one turn only, so an angle more than
  \<open>3 * pi\<close> away from the reference stays more than \<open>pi\<close> away. For \<open>a = 0\<close> and the
  reference 20 the result is \<open>2 * pi\<close>.
\<close>

theorem denormalizeAngle_counterexample:
  "\<not> \<bar>denormalizeAngle 0 20 - 20\<bar> \<le> pi"
  using pi_less_4 pi_gt_zero by (simp add: denormalizeAngle_def M_PI_def)

text \<open>
  C6, amended. Whenever \<open>a\<close> is at most \<open>3 * pi\<close> away from the reference, the result is
  within \<open>pi\<close> of the reference. When \<open>|reference - a| > pi\<close> the function shifts \<open>a\<close> by
  \<open>2 * pi\<close>, downwards if the reference is below \<open>a\<close> and upwards otherwise, and the shift
  reduces the distance to the reference; otherwise it returns \<open>a\<close> unchanged.
\<close>

theorem denormalizeAngle_within_pi:
  "(\<bar>r - a\<bar> \<le> 3 * pi \<longrightarrow> \<bar>denormalizeAngle a r - r\<bar> \<le> pi)
   \<and> (\<bar>r - a\<bar> > pi \<longrightarrow>
        denormalizeAngle a r = (if r < a then a - 2 * pi else a + 2 * pi)
        \<and> \<bar>denormalizeAngle a r - r\<bar> < \<bar>a - r\<bar>)
   \<and> (\<bar>r - a\<bar> \<le> pi \<longrightarrow> denormalizeAngle a r = a)"
  using pi_gt_zero by (auto simp add: denormalizeAngle_def M_PI_def abs_if split: if_splits)

theorem denormalizeAngle_within_pi_witness:
  "\<bar>- 3 - 3\<bar> \<le> 3 * pi \<and> \<bar>denormalizeAngle 3 (- 3) - (- 3)\<bar> \<le> pi
   \<and> \<bar>- 3 - (3::real)\<bar> > pi \<and> denormalizeAngle 3 (- 3) = 3 - 2 * pi
   \<and> \<bar>1 - (0::real)\<bar> \<le> pi \<and> denormalizeAngle 0 1 = 0"
  using denormalizeAngle_within_pi [of "- 3" 3] denormalizeAngle_within_pi [of 1 0]
    pi_ge_two pi_less_4
  by simp

text \<open>
  C7. The surface \<open>phi\<close> is symmetric under swapping its two arguments, and takes the
  anchor values \<open>phi(0,0) = 0\<close>, \<open>phi(1,1) = 1\<close> and \<open>phi(-1,-1) = -1\<close>.
\<close>

theorem phi_symmetric_anchors:
  "phi s1 s2 = phi s2 s1 \<and> phi 0 0 = 0 \<and> phi 1 1 = 1 \<and> phi (-1) (-1) = -1"
  by (simp add: phi_def algebra_simps)

text \<open>
  C8. For all \<open>s1\<close>, \<open>s2\<close> in \<open>[-1, 1]\<close> the value \<open>phi(s1, s2)\<close> lies in \<open>[-2, 2]\<close>, and
  \<open>phi\<close> is continuous on that square.
\<close>

theorem phi_bounded_continuous:
  "(- 1 \<le> s1 \<and> s1 \<le> 1 \<and> - 1 \<le> s2 \<and> s2 \<le> 1 \<longrightarrow> - 2 \<le> phi s1 s2 \<and> phi s1 s2 \<le> 2)
   \<and> continuous_on ({- 1..1} \<times> {- 1..1}) (\<lambda>p. phi (fst p) (snd p))"
proof -
  have "- 2 \<le> phi s1 s2 \<and> phi s1 s2 \<le> 2"
    if "- 1 \<le> s1" "s1 \<le> 1" "- 1 \<le> s2" "s2 \<le> 1"
    using phi_unit [OF that] by simp
  then show ?thesis using phi_continuous by blast
qed

theorem phi_bounded_continuous_witness:
  "- 1 \<le> (1/2::real) \<and> (1/2::real) \<le> 1 \<and> - 1 \<le> (0::real) \<and> (0::real) \<le> 1
   \<and> - 2 \<le> phi (1/2) 0 \<and> phi (1/2) 0 \<le> 2 \<and> phi (1/2) 0 = 1/2"
  using phi_bounded_continuous [of "1/2" 0] by (simp add: phi_def)

text \<open>
  C9. For each of \<open>phi1\<close>, \<open>phi2\<close>, \<open>phi3\<close>, \<open>omega12\<close> and \<open>omega23\<close> there are inputs in
  \<open>[-1, 1]\<close> and coefficients \<open>alpha1\<close>, \<open>alpha2\<close> in \<open>[0, 1]\<close> at which one of its
  denominators is exactly zero, so that the unguarded division is by zero; for \<open>phi1\<close> this
  also happens at the default coefficients \<open>alpha1 = alpha2 = 0.5\<close>.
\<close>

theorem compositor_singularities:
  "(\<exists>a1 a2 s1 s2. 0 \<le> a1 \<and> a1 \<le> 1 \<and> 0 \<le> a2 \<and> a2 \<le> 1 \<and> - 1 \<le> s1 \<and> s1 \<le> 1
        \<and> - 1 \<le> s2 \<and> s2 \<le> 1 \<and> phi1 a1 a2 s1 s2 = None)
   \<and> (\<exists>a1 a2 s1 s2. 0 \<le> a1 \<and> a1 \<le> 1 \<and> 0 \<le> a2 \<and> a2 \<le> 1 \<and> - 1 \<le> s1 \<and> s1 \<le> 1
        \<and> - 1 \<le> s2 \<and> s2 \<le> 1 \<and> phi2 a1 a2 s1 s2 = None)
   \<and> (\<exists>a1 a2 s1 s2. 0 \<le> a1 \<and> a1 \<le> 1 \<and> 0 \<le> a2 \<and> a2 \<le> 1 \<and> - 1 \<le> s1 \<and> s1 \<le> 1
        \<and> - 1 \<le> s2 \<and> s2 \<le> 1 \<and> phi3 a1 a2 s1 s2 = None)
   \<and> (\<exists>a1 a2 s1. 0 \<le> a1 \<and> a1 \<le> 1 \<and> 0 \<le> a2 \<and> a2 \<le> 1 \<and> - 1 \<le> s1 \<and> s1 \<le> 1
        \<and> omega12 a1 a2 s1 = None)
   \<and> (\<exists>a1 a2 s1. 0 \<le> a1 \<and> a1 \<le> 1 \<and> 0 \<le> a2 \<and> a2 \<le> 1 \<and> - 1 \<le> s1 \<and> s1 \<le> 1
        \<and> omega23 a1 a2 s1 = None)
   \<and> phi1 0.5 0.5 (1/3) 0 = None"
proof -
  have 1: "phi1 0 0 0 0 = None" by (simp add: phi1_def ddiv_def)
  have 2: "phi2 0 0 0 0 = None" by (simp add: phi2_def ddiv_def)
  have 3: "phi3 0 0 0 0 = None" by (simp add: phi3_def ddiv_def)
  have 4: "omega12 0 0 (- 1) = None" by (simp add: omega12_def ddiv_def)
  have 5: "omega23 0 0 0 = None" by (simp add: omega23_def ddiv_def)
  have 6: "phi1 0.5 0.5 (1/3) 0 = None" by (simp add: phi1_def ddiv_def)
  have e1: "\<exists>a1 a2 s1 s2. 0 \<le> a1 \<and> a1 \<le> 1 \<and> 0 \<le> a2 \<and> a2 \<le> 1 \<and> - 1 \<le> s1 \<and> s1 \<le> 1
        \<and> - 1 \<le> s2 \<and> s2 \<le> 1 \<and> phi1 a1 a2 s1 s2 = None"
    by (rule exI [of _ 0], rule exI [of _ 0], rule exI [of _ 0], rule exI [of _ 0]) (simp add: 1)
  have e2: "\<exists>a1 a2 s1 s2. 0 \<le> a1 \<and> a1 \<le> 1 \<and> 0 \<le> a2 \<and> a2 \<le> 1 \<and> - 1 \<le> s1 \<and> s1 \<le> 1
        \<and> - 1 \<le> s2 \<and> s2 \<le> 1 \<and> phi2 a1 a2 s1 s2 = None"
    by (rule exI [of _ 0], rule exI [of _ 0], rule exI [of _ 0], rule exI [of _ 0]) (simp add: 2)
  have e3: "\<exists>a1 a2 s1 s2. 0 \<le> a1 \<and> a1 \<le> 1 \<and> 0 \<le> a2 \<and> a2 \<le> 1 \<and> - 1 \<le> s1 \<and> s1 \<le> 1
        \<and> - 1 \<le> s2 \<and> s2 \<le> 1 \<and> phi3 a1 a2 s1 s2 = None"
    by (rule exI [of _ 0], rule exI [of _ 0], rule exI [of _ 0], rule exI [of _ 0]) (simp add: 3)
  have e4: "\<exists>a1 a2 s1. 0 \<le> a1 \<and> a1 \<le> 1 \<and> 0 \<le> a2 \<and> a2 \<le> 1 \<and> - 1 \<le> s1 \<and> s1 \<le> 1
        \<and> omega12 a1 a2 s1 = None"
    by (rule exI [of _ 0], rule exI [of _ 0], rule exI [of _ "- 1"]) (simp add: 4)
  have e5: "\<exists>a1 a2 s1. 0 \<le> a1 \<and> a1 \<le> 1 \<and> 0 \<le> a2 \<and> a2 \<le> 1 \<and> - 1 \<le> s1 \<and> s1 \<le> 1
        \<and> omega23 a1 a2 s1 = None"
    by (rule exI [of _ 0], rule exI [of _ 0], rule exI [of _ 0]) (simp add: 5)
  from e1 e2 e3 e4 e5 6 show ?thesis by blast
qed

end
